theory Spec2Isabelle
  imports Complex_Main
begin

section \<open>Values, exceptions and callables\<close>

text \<open>
  The source is \<^verbatim>\<open>streaming/vision/base.py\<close>. Inputs and targets are of type
  \<^verbatim>\<open>Any\<close>; the values below are the Python objects a sample can hold: \<^verbatim>\<open>None\<close>,
  integers, strings, a decoded PIL image (its pixel bytes), a tensor, tuples and
  dictionaries (in insertion order, read by key).
\<close>

datatype val =
    NoneV
  | IntV int
  | StrV string
  | ImageV "nat list"
  | TensorV "rat list"
  | TupleV "val list"
  | DictV "(val \<times> val) list"

text \<open>
  Exceptions are values. \<open>ValueError\<close> is what the constructor raises; \<open>KeyError\<close> and
  \<open>TypeError\<close> are what subscripting raises; \<open>Raised\<close> stands for any other exception
  class, named by its argument.
\<close>

datatype exn =
    ValueError string
  | KeyError val
  | TypeError string
  | Raised string

text \<open>
  A caller-supplied transform is a Python object with \<^verbatim>\<open>__call__\<close>. Besides what
  the call returns or raises, \<^verbatim>\<open>StandardTransform.__call__\<close> observes the object's
  truth value (\<^verbatim>\<open>if self.transform:\<close>), which is \<^verbatim>\<open>True\<close> for a function or a
  lambda and whatever \<^verbatim>\<open>__bool__\<close> or \<^verbatim>\<open>__len__\<close> says for an object that defines
  one of them.
\<close>

datatype callable = Callable (truthy: bool) (call: "val \<Rightarrow> exn + val")

text \<open>The truth value of an \<^verbatim>\<open>Optional[Callable]\<close>: \<^verbatim>\<open>None\<close> is false.\<close>

fun py_bool :: "callable option \<Rightarrow> bool" where
  "py_bool None = False"
| "py_bool (Some f) = truthy f"

text \<open>
  Calling an \<^verbatim>\<open>Optional[Callable]\<close> with one argument: calling \<^verbatim>\<open>None\<close> raises
  \<^verbatim>\<open>TypeError\<close>.
\<close>

fun py_call :: "callable option \<Rightarrow> val \<Rightarrow> exn + val" where
  "py_call None x = Inl (TypeError ''NoneType object is not callable'')"
| "py_call (Some f) x = call f x"

text \<open>\<^verbatim>\<open>v is not None\<close> for an optional argument.\<close>

fun is_not_None :: "'a option \<Rightarrow> bool" where
  "is_not_None None = False"
| "is_not_None (Some _) = True"

text \<open>
  \<^verbatim>\<open>obj[key]\<close>: a dictionary is read by key and raises \<^verbatim>\<open>KeyError(key)\<close> when the
  key is absent. The other values here are not subscriptable by a string key: a
  tensor rejects the index, the rest raise \<^verbatim>\<open>TypeError\<close>.
\<close>

fun py_getitem :: "val \<Rightarrow> val \<Rightarrow> exn + val" where
  "py_getitem (DictV kvs) k =
     (case map_of kvs k of None \<Rightarrow> Inl (KeyError k) | Some v \<Rightarrow> Inr v)"
| "py_getitem (TensorV _) k = Inl (Raised ''IndexError'')"
| "py_getitem _ k = Inl (TypeError ''object is not subscriptable by this key'')"

section \<open>StandardTransform\<close>

datatype StandardTransform =
  StandardTransform (st_transform: "callable option") (st_target_transform: "callable option")

text \<open>
  \<^verbatim>\<open>StandardTransform.__call__(self, x, y)\<close>. The function \<open>to_tensor\<close> is
  torchvision's, imported by the source; it is a parameter here. An exception raised
  by \<open>to_tensor\<close> or by a transform leaves the method at once.
\<close>

definition StandardTransform_call ::
  "(val \<Rightarrow> exn + val) \<Rightarrow> StandardTransform \<Rightarrow> val \<Rightarrow> val \<Rightarrow> exn + val" where
  "StandardTransform_call to_tensor self x y =
     (case (if py_bool (st_transform self) then py_call (st_transform self) x
            else to_tensor x) of
        Inl e \<Rightarrow> Inl e
      | Inr x' \<Rightarrow>
          (case (if py_bool (st_target_transform self)
                 then py_call (st_target_transform self) y
                 else Inr y) of
             Inl e \<Rightarrow> Inl e
           | Inr y' \<Rightarrow> Inr (TupleV [x', y'])))"

section \<open>StreamingVisionDataset\<close>

text \<open>
  The keyword arguments that \<^verbatim>\<open>StreamingVisionDataset.__init__\<close> passes on to
  \<^verbatim>\<open>StreamingDataset.__init__\<close>, with the types of the signature.
\<close>

record engine_config =
  remote :: "string option"
  local :: "string option"
  split :: "string option"
  download_retry :: int
  download_timeout :: rat
  validate_hash :: "string option"
  keep_zip :: bool
  keep_raw :: bool
  predownload :: "int option"
  partition_algo :: string
  num_canonical_nodes :: "int option"
  batch_size :: "int option"
  shuffle :: bool
  shuffle_algo :: string
  shuffle_seed :: int
  shuffle_block_size :: int

text \<open>
  The remaining keyword arguments of \<^verbatim>\<open>StreamingVisionDataset.__init__\<close>: \<^verbatim>\<open>choose\<close>
  (accepted, and not among the arguments passed on) and the three transforms.
\<close>

record init_args = engine_config +
  choose_arg :: "int option"
  transforms_arg :: "(val \<Rightarrow> val \<Rightarrow> exn + val) option"
  transform_arg :: "callable option"
  target_transform_arg :: "callable option"

text \<open>
  \<^verbatim>\<open>self.transforms\<close> is either the caller's joint transform or the
  \<^verbatim>\<open>StandardTransform\<close> built from the two separate ones.
\<close>

datatype transforms_obj =
    Joint "val \<Rightarrow> val \<Rightarrow> exn + val"
  | Standard StandardTransform

text \<open>
  The object: the state of the base class \<^verbatim>\<open>StreamingDataset\<close> (of a type \<open>'es\<close>
  that this file leaves open) and the three attributes the subclass sets.
\<close>

record 'es StreamingVisionDataset =
  engine :: 'es
  transform :: "callable option"
  target_transform :: "callable option"
  transforms :: transforms_obj

text \<open>
  \<^verbatim>\<open>StreamingVisionDataset.__init__\<close>. The base class's constructor is not in this
  file of the repository: it is the parameter \<open>StreamingDataset_init\<close>, which returns
  the base class's state or raises. The exception of the constructor's own check is
  \<open>configuration_error\<close>.
\<close>

definition configuration_error :: exn where
  "configuration_error =
     ValueError ''Only transforms or transform/target_transform can be passed as an argument''"

definition init ::
  "(engine_config \<Rightarrow> exn + 'es) \<Rightarrow> init_args \<Rightarrow> exn + 'es StreamingVisionDataset" where
  "init StreamingDataset_init args =
     (case StreamingDataset_init (engine_config.truncate args) of
        Inl e \<Rightarrow> Inl e
      | Inr es \<Rightarrow>
          (let has_transforms = is_not_None (transforms_arg args);
               has_separate_transform =
                 (is_not_None (transform_arg args) \<or> is_not_None (target_transform_arg args))
           in if has_transforms \<and> has_separate_transform
              then Inl configuration_error
              else Inr \<lparr> engine = es,
                         transform = transform_arg args,
                         target_transform = target_transform_arg args,
                         transforms =
                           (case transforms_arg args of
                              None \<Rightarrow> Standard (StandardTransform (transform_arg args)
                                                   (target_transform_arg args))
                            | Some f \<Rightarrow> Joint f) \<rparr>))"

text \<open>\<^verbatim>\<open>self.transforms(x, y)\<close>.\<close>

fun transforms_call ::
  "(val \<Rightarrow> exn + val) \<Rightarrow> transforms_obj \<Rightarrow> val \<Rightarrow> val \<Rightarrow> exn + val" where
  "transforms_call to_tensor (Joint f) x y = f x y"
| "transforms_call to_tensor (Standard st) x y = StandardTransform_call to_tensor st x y"

text \<open>
  \<^verbatim>\<open>StreamingVisionDataset.get_item(self, idx)\<close>. The base class's \<^verbatim>\<open>get_item\<close> is the
  parameter \<open>super_get_item\<close>: from the base class's state and the index it returns
  the raw object or raises, and the state it leaves behind. The method returns its
  result together with the object as the call leaves it.
\<close>

definition get_item ::
  "(val \<Rightarrow> exn + val) \<Rightarrow> ('es \<Rightarrow> int \<Rightarrow> (exn + val) \<times> 'es) \<Rightarrow>
   'es StreamingVisionDataset \<Rightarrow> int \<Rightarrow> (exn + val) \<times> 'es StreamingVisionDataset" where
  "get_item to_tensor super_get_item self idx =
     (case super_get_item (engine self) idx of
        (Inl e, es') \<Rightarrow> (Inl e, self\<lparr>engine := es'\<rparr>)
      | (Inr obj, es') \<Rightarrow>
          (case py_getitem obj (StrV ''x'') of
             Inl e \<Rightarrow> (Inl e, self\<lparr>engine := es'\<rparr>)
           | Inr x \<Rightarrow>
               (case py_getitem obj (StrV ''y'') of
                  Inl e \<Rightarrow> (Inl e, self\<lparr>engine := es'\<rparr>)
                | Inr y \<Rightarrow>
                    (transforms_call to_tensor (transforms self) x y,
                     self\<lparr>engine := es'\<rparr>))))"

text \<open>A caller's sequence of \<^verbatim>\<open>get_item\<close> calls on one object, each result kept.\<close>

fun get_items ::
  "(val \<Rightarrow> exn + val) \<Rightarrow> ('es \<Rightarrow> int \<Rightarrow> (exn + val) \<times> 'es) \<Rightarrow>
   'es StreamingVisionDataset \<Rightarrow> int list \<Rightarrow> (exn + val) list \<times> 'es StreamingVisionDataset" where
  "get_items to_tensor super_get_item self [] = ([], self)"
| "get_items to_tensor super_get_item self (idx # idxs) =
     (case get_item to_tensor super_get_item self idx of
        (r, self') \<Rightarrow>
          (case get_items to_tensor super_get_item self' idxs of
             (rs, self'') \<Rightarrow> (r # rs, self'')))"

section \<open>Concrete collaborators for the examples\<close>

text \<open>
  The theorems below hold for every \<open>to_tensor\<close>, every base-class constructor and
  every base-class \<^verbatim>\<open>get_item\<close>. The examples at concrete inputs need one of each.
  This \<open>to_tensor\<close> does what torchvision's does to a decoded 8-bit image, scaling
  each byte to the range from 0 to 1, and rejects everything else with \<^verbatim>\<open>TypeError\<close>.
\<close>

fun to_tensor_model :: "val \<Rightarrow> exn + val" where
  "to_tensor_model (ImageV px) = Inr (TensorV (map (\<lambda>p. of_nat p / 255) px))"
| "to_tensor_model _ = Inl (TypeError ''pic should be PIL Image or ndarray'')"

text \<open>A base class whose state counts the retrievals made so far.\<close>

definition example_init :: "engine_config \<Rightarrow> exn + nat" where
  "example_init cfg = Inr 0"

text \<open>
  Its dataset has a full sample at index 0, a sample with no \<^verbatim>\<open>'y'\<close> at index 1,
  a sample with no \<^verbatim>\<open>'x'\<close> at index 2, and nothing else.
\<close>

definition example_get_item :: "nat \<Rightarrow> int \<Rightarrow> (exn + val) \<times> nat" where
  "example_get_item n idx =
     (if idx = 0 then Inr (DictV [(StrV ''x'', ImageV [0, 255]), (StrV ''y'', IntV 7)])
      else if idx = 1 then Inr (DictV [(StrV ''x'', ImageV [0, 255])])
      else if idx = 2 then Inr (DictV [(StrV ''y'', IntV 7)])
      else Inl (Raised ''IndexError''),
      Suc n)"

text \<open>The defaults of the signature of \<^verbatim>\<open>StreamingVisionDataset.__init__\<close>.\<close>

definition default_args :: init_args where
  "default_args =
     \<lparr> remote = None, local = None, split = None, download_retry = 2,
       download_timeout = 60, validate_hash = None, keep_zip = False, keep_raw = True,
       predownload = Some 100000, partition_algo = ''orig'', num_canonical_nodes = None,
       batch_size = None, shuffle = False, shuffle_algo = ''py1b'', shuffle_seed = 9176,
       shuffle_block_size = 262144, choose_arg = None, transforms_arg = None,
       transform_arg = None, target_transform_arg = None \<rparr>"

text \<open>An input transform (a function, so true): the negative of an image.\<close>

definition invert :: callable where
  "invert = Callable True (\<lambda>v. case v of
       ImageV px \<Rightarrow> Inr (ImageV (map (\<lambda>p. 255 - p) px))
     | _ \<Rightarrow> Inl (TypeError ''not an image''))"

text \<open>A target transform (a function, so true): ten times an integer label.\<close>

definition times_ten :: callable where
  "times_ten = Callable True (\<lambda>v. case v of
       IntV n \<Rightarrow> Inr (IntV (10 * n))
     | _ \<Rightarrow> Inl (TypeError ''not an integer''))"

text \<open>A transform that raises on every argument.\<close>

definition failing :: callable where
  "failing = Callable True (\<lambda>v. Inl (Raised ''RuntimeError''))"

text \<open>
  An empty pipeline of transforms: a callable object that has \<^verbatim>\<open>__len__\<close>, holds no
  stage and returns its argument (an empty \<^verbatim>\<open>torch.nn.Sequential()\<close> is one). Its
  length is 0, so its truth value is false.
\<close>

definition empty_pipeline :: callable where
  "empty_pipeline = Callable False (\<lambda>v. Inr v)"

text \<open>A joint transform whose result is not a pair.\<close>

definition describe :: "val \<Rightarrow> val \<Rightarrow> exn + val" where
  "describe x y = Inr (StrV ''sample'')"

section \<open>What \<^verbatim>\<open>StandardTransform.__call__\<close> computes\<close>

lemma StandardTransform_call_no_input_transform:
  "StandardTransform_call to_tensor (StandardTransform None ft) x y =
     (case to_tensor x of
        Inl e \<Rightarrow> Inl e
      | Inr x' \<Rightarrow>
          (case (if py_bool ft then py_call ft y else Inr y) of
             Inl e \<Rightarrow> Inl e
           | Inr y' \<Rightarrow> Inr (TupleV [x', y'])))"
  by (simp add: StandardTransform_call_def split: sum.splits)

lemma StandardTransform_call_no_target_transform:
  "StandardTransform_call to_tensor (StandardTransform fi None) x y =
     (case (if py_bool fi then py_call fi x else to_tensor x) of
        Inl e \<Rightarrow> Inl e
      | Inr x' \<Rightarrow> Inr (TupleV [x', y]))"
  by (simp add: StandardTransform_call_def split: sum.splits)

lemma StandardTransform_call_true_input_transform:
  "truthy fi \<Longrightarrow>
   StandardTransform_call to_tensor (StandardTransform (Some fi) None) x y =
     (case call fi x of Inl e \<Rightarrow> Inl e | Inr x' \<Rightarrow> Inr (TupleV [x', y]))"
  by (simp add: StandardTransform_call_def split: sum.splits)

lemma init_engine_error:
  "StreamingDataset_init (engine_config.truncate args) = Inl e \<Longrightarrow>
   init StreamingDataset_init args = Inl e"
  by (simp add: init_def)

lemma init_no_transforms:
  assumes "StreamingDataset_init (engine_config.truncate args) = Inr es"
    and "transforms_arg args = None"
  shows "init StreamingDataset_init args =
           Inr \<lparr> engine = es, transform = transform_arg args,
                 target_transform = target_transform_arg args,
                 transforms = Standard (StandardTransform (transform_arg args)
                                          (target_transform_arg args)) \<rparr>"
  using assms by (simp add: init_def)

lemma init_Inr_transforms:
  assumes "init StreamingDataset_init args = Inr self"
  shows "transforms self =
           (case transforms_arg args of
              None \<Rightarrow> Standard (StandardTransform (transform_arg args)
                                   (target_transform_arg args))
            | Some f \<Rightarrow> Joint f)"
  using assms by (auto simp: init_def Let_def split: sum.splits if_splits)

lemma get_item_retrieved:
  assumes "super_get_item (engine self) idx = (Inr obj, es')"
    and "py_getitem obj (StrV ''x'') = Inr x"
    and "py_getitem obj (StrV ''y'') = Inr y"
  shows "get_item to_tensor super_get_item self idx =
           (transforms_call to_tensor (transforms self) x y, self\<lparr>engine := es'\<rparr>)"
  using assms by (simp add: get_item_def)

lemma get_item_result:
  "fst (get_item to_tensor super_get_item self idx) =
     (case fst (super_get_item (engine self) idx) of
        Inl e \<Rightarrow> Inl e
      | Inr obj \<Rightarrow>
          (case py_getitem obj (StrV ''x'') of
             Inl e \<Rightarrow> Inl e
           | Inr x \<Rightarrow>
               (case py_getitem obj (StrV ''y'') of
                  Inl e \<Rightarrow> Inl e
                | Inr y \<Rightarrow> transforms_call to_tensor (transforms self) x y)))"
  by (simp add: get_item_def split: prod.splits sum.splits)

lemma get_item_object:
  "snd (get_item to_tensor super_get_item self idx) =
     self\<lparr>engine := snd (super_get_item (engine self) idx)\<rparr>"
  by (simp add: get_item_def split: prod.splits sum.splits)

lemma get_items_object:
  "snd (get_items to_tensor super_get_item self idxs) =
     self\<lparr>engine := engine (snd (get_items to_tensor super_get_item self idxs))\<rparr>"
proof (induction idxs arbitrary: self)
  case Nil
  show ?case by simp
next
  case (Cons idx idxs)
  obtain r self' where step: "get_item to_tensor super_get_item self idx = (r, self')"
    by (cases "get_item to_tensor super_get_item self idx")
  have self': "self' = self\<lparr>engine := snd (super_get_item (engine self) idx)\<rparr>"
    using get_item_object [of to_tensor super_get_item self idx] step by simp
  obtain rs self'' where rest: "get_items to_tensor super_get_item self' idxs = (rs, self'')"
    by (cases "get_items to_tensor super_get_item self' idxs")
  have "self'' = self'\<lparr>engine := engine self''\<rparr>"
    using Cons.IH [of self'] rest by simp
  then have "self'' = self\<lparr>engine := engine self''\<rparr>"
    by (simp add: self')
  then show ?case
    by (simp add: step rest)
qed

section \<open>The transform policy\<close>

text \<open>
  Claim C1, as the code has it. An absent target transform passes the target through
  unchanged, whatever the input transform is. An absent input transform does not pass
  the input through: the input goes through \<open>to_tensor\<close>. So
  \<^verbatim>\<open>StandardTransform(None, None)\<close> returns \<^verbatim>\<open>(to_tensor(x), y)\<close>,
  \<^verbatim>\<open>StandardTransform(None, ft)\<close> with a true \<^verbatim>\<open>ft\<close> returns
  \<^verbatim>\<open>(to_tensor(x), ft(y))\<close>, and a constructor given \<^verbatim>\<open>None\<close> for all three
  transforms builds exactly \<^verbatim>\<open>StandardTransform(None, None)\<close>: the policy with both
  separate transforms absent is the default policy.
\<close>

theorem C1_absent_slots:
  "StandardTransform_call to_tensor (StandardTransform None None) x y =
     (case to_tensor x of Inl e \<Rightarrow> Inl e | Inr x' \<Rightarrow> Inr (TupleV [x', y]))
   \<and> (truthy ft \<longrightarrow>
        StandardTransform_call to_tensor (StandardTransform None (Some ft)) x y =
          (case to_tensor x of
             Inl e \<Rightarrow> Inl e
           | Inr x' \<Rightarrow>
               (case call ft y of Inl e \<Rightarrow> Inl e | Inr y' \<Rightarrow> Inr (TupleV [x', y']))))
   \<and> (case StandardTransform_call to_tensor (StandardTransform fi None) x y of
         Inl e \<Rightarrow> True
       | Inr r \<Rightarrow> \<exists>x'. r = TupleV [x', y])
   \<and> (StreamingDataset_init (engine_config.truncate args) = Inr es
        \<and> transforms_arg args = None \<and> transform_arg args = None
        \<and> target_transform_arg args = None \<longrightarrow>
        init StreamingDataset_init args =
          Inr \<lparr> engine = es, transform = None, target_transform = None,
                transforms = Standard (StandardTransform None None) \<rparr>)"
proof -
  have target_kept:
    "case StandardTransform_call to_tensor (StandardTransform fi None) x y of
       Inl e \<Rightarrow> True
     | Inr r \<Rightarrow> \<exists>x'. r = TupleV [x', y]"
    by (simp add: StandardTransform_call_no_target_transform split: sum.splits)
  have built:
    "StreamingDataset_init (engine_config.truncate args) = Inr es
       \<and> transforms_arg args = None \<and> transform_arg args = None
       \<and> target_transform_arg args = None \<longrightarrow>
     init StreamingDataset_init args =
       Inr \<lparr> engine = es, transform = None, target_transform = None,
             transforms = Standard (StandardTransform None None) \<rparr>"
    by (simp add: init_no_transforms)
  show ?thesis
    using target_kept built
    by (simp add: StandardTransform_call_no_input_transform split: sum.splits)
qed

theorem C1_absent_slots_witness:
  "truthy times_ten
   \<and> StandardTransform_call to_tensor_model (StandardTransform None (Some times_ten))
        (ImageV [0, 255]) (IntV 7) = Inr (TupleV [TensorV [0, 1], IntV 70])
   \<and> StandardTransform_call to_tensor_model (StandardTransform None None)
        (ImageV [0, 255]) (IntV 7) = Inr (TupleV [TensorV [0, 1], IntV 7])
   \<and> example_init (engine_config.truncate default_args) = Inr 0
   \<and> init example_init default_args =
        Inr \<lparr> engine = 0, transform = None, target_transform = None,
              transforms = Standard (StandardTransform None None) \<rparr>"
  using C1_absent_slots [where ft = times_ten and to_tensor = to_tensor_model
      and x = "ImageV [0, 255]" and y = "IntV 7" and fi = None
      and StreamingDataset_init = example_init and args = default_args and es = 0]
  by (simp add: times_ten_def example_init_def default_args_def)

text \<open>
  Claim C1 as the specification states it fails: with both separate transforms absent
  the pair is not returned unchanged, and with only the input transform absent the
  input is not passed through.
\<close>

theorem C1_counterexample:
  "StandardTransform_call to_tensor_model (StandardTransform None None)
        (ImageV [0, 255]) (IntV 7) \<noteq> Inr (TupleV [ImageV [0, 255], IntV 7])
   \<and> StandardTransform_call to_tensor_model (StandardTransform None (Some times_ten))
        (ImageV [0, 255]) (IntV 7) \<noteq> Inr (TupleV [ImageV [0, 255], IntV 70])"
  by (simp add: StandardTransform_call_def times_ten_def)

text \<open>
  Claim C2. Once the base class's constructor has returned, the constructor raises its
  configuration error exactly when the joint transform is given together with at least
  one of the separate transforms, and returns an object in every other case. The
  retrieval has no such check: \<^verbatim>\<open>get_item\<close> raises the configuration error only if
  the base class's \<^verbatim>\<open>get_item\<close> or the transform call raises that very exception.
\<close>

theorem C2_configuration_error:
  assumes "StreamingDataset_init (engine_config.truncate args) = Inr es"
  shows "(init StreamingDataset_init args = Inl configuration_error) =
           (is_not_None (transforms_arg args) \<and>
            (is_not_None (transform_arg args) \<or> is_not_None (target_transform_arg args)))
       \<and> (\<exists>self. init StreamingDataset_init args = Inr self) =
           (\<not> (is_not_None (transforms_arg args) \<and>
               (is_not_None (transform_arg args) \<or> is_not_None (target_transform_arg args))))
       \<and> (fst (super_get_item (engine self) idx) \<noteq> Inl configuration_error
            \<and> (\<forall>x y. transforms_call to_tensor (transforms self) x y \<noteq>
                       Inl configuration_error) \<longrightarrow>
          fst (get_item to_tensor super_get_item self idx) \<noteq> Inl configuration_error)"
proof -
  have raised: "(init StreamingDataset_init args = Inl configuration_error) =
      (is_not_None (transforms_arg args) \<and>
       (is_not_None (transform_arg args) \<or> is_not_None (target_transform_arg args)))"
    using assms by (simp add: init_def Let_def)
  have built: "(\<exists>self. init StreamingDataset_init args = Inr self) =
      (\<not> (is_not_None (transforms_arg args) \<and>
          (is_not_None (transform_arg args) \<or> is_not_None (target_transform_arg args))))"
    using assms by (simp add: init_def Let_def)
  have lookup: "py_getitem obj k \<noteq> Inl configuration_error" for obj k
    by (cases obj) (simp_all add: configuration_error_def split: option.splits)
  have later: "fst (super_get_item (engine self) idx) \<noteq> Inl configuration_error
      \<and> (\<forall>x y. transforms_call to_tensor (transforms self) x y \<noteq> Inl configuration_error)
      \<longrightarrow> fst (get_item to_tensor super_get_item self idx) \<noteq> Inl configuration_error"
    using lookup
    by (auto simp: get_item_def split: prod.splits sum.splits)
  from raised built later show ?thesis by blast
qed

theorem C2_configuration_error_witness:
  "example_init (engine_config.truncate
       (default_args\<lparr>transforms_arg := Some describe, target_transform_arg := Some times_ten\<rparr>))
     = Inr 0
   \<and> init example_init
       (default_args\<lparr>transforms_arg := Some describe, target_transform_arg := Some times_ten\<rparr>)
     = Inl configuration_error
   \<and> (\<exists>self. init example_init (default_args\<lparr>transform_arg := Some invert\<rparr>) = Inr self)
   \<and> fst (get_item to_tensor_model example_get_item
        \<lparr> engine = 0, transform = None, target_transform = None,
          transforms = Joint describe \<rparr> 0) \<noteq> Inl configuration_error"
  using
    C2_configuration_error [where StreamingDataset_init = example_init and es = 0
      and args = "default_args\<lparr>transforms_arg := Some describe,
                                 target_transform_arg := Some times_ten\<rparr>"
      and super_get_item = example_get_item and to_tensor = to_tensor_model and idx = 0
      and self = "\<lparr> engine = 0, transform = None, target_transform = None,
                     transforms = Joint describe \<rparr>"]
    C2_configuration_error [where StreamingDataset_init = example_init and es = 0
      and args = "default_args\<lparr>transform_arg := Some invert\<rparr>"
      and super_get_item = example_get_item and to_tensor = to_tensor_model and idx = 0
      and self = "\<lparr> engine = 0, transform = None, target_transform = None,
                     transforms = Joint describe \<rparr>"]
  by (simp add: example_init_def example_get_item_def default_args_def describe_def
      configuration_error_def)

text \<open>
  Claim C3. An object constructed with none of the three transforms applies
  \<open>to_tensor\<close> to the input and returns the target as it is: the policy returns
  \<^verbatim>\<open>(to_tensor(x), y)\<close>, and \<^verbatim>\<open>get_item\<close> returns \<^verbatim>\<open>(to_tensor(raw_x), raw_y)\<close> for the
  raw sample of the base class. Where \<open>to_tensor\<close> raises, so do both.
\<close>

theorem C3_default_policy:
  assumes "transforms_arg args = None"
    and "transform_arg args = None"
    and "target_transform_arg args = None"
    and "init StreamingDataset_init args = Inr self"
    and "super_get_item (engine self) idx = (Inr obj, es')"
    and "py_getitem obj (StrV ''x'') = Inr raw_x"
    and "py_getitem obj (StrV ''y'') = Inr raw_y"
  shows "transforms_call to_tensor (transforms self) x y =
           (case to_tensor x of Inl e \<Rightarrow> Inl e | Inr x' \<Rightarrow> Inr (TupleV [x', y]))
       \<and> fst (get_item to_tensor super_get_item self idx) =
           (case to_tensor raw_x of Inl e \<Rightarrow> Inl e | Inr x' \<Rightarrow> Inr (TupleV [x', raw_y]))"
proof -
  have policy: "transforms self = Standard (StandardTransform None None)"
    using assms(1-4) by (simp add: init_Inr_transforms)
  have applied: "transforms_call to_tensor (transforms self) u v =
      (case to_tensor u of Inl e \<Rightarrow> Inl e | Inr x' \<Rightarrow> Inr (TupleV [x', v]))" for u v
    by (simp add: policy StandardTransform_call_no_input_transform split: sum.splits)
  have "fst (get_item to_tensor super_get_item self idx) =
      transforms_call to_tensor (transforms self) raw_x raw_y"
    using assms(5-7) by (simp add: get_item_retrieved)
  then show ?thesis by (simp add: applied)
qed

theorem C3_default_policy_witness:
  "init example_init default_args =
     Inr \<lparr> engine = 0, transform = None, target_transform = None,
           transforms = Standard (StandardTransform None None) \<rparr>
   \<and> example_get_item 0 0 =
       (Inr (DictV [(StrV ''x'', ImageV [0, 255]), (StrV ''y'', IntV 7)]), 1)
   \<and> fst (get_item to_tensor_model example_get_item
        \<lparr> engine = 0, transform = None, target_transform = None,
          transforms = Standard (StandardTransform None None) \<rparr> 0) =
       Inr (TupleV [TensorV [0, 1], IntV 7])"
  using C3_default_policy [where args = default_args
      and StreamingDataset_init = example_init
      and self = "\<lparr> engine = 0, transform = None, target_transform = None,
                     transforms = Standard (StandardTransform None None) \<rparr>"
      and super_get_item = example_get_item and idx = 0 and es' = 1
      and obj = "DictV [(StrV ''x'', ImageV [0, 255]), (StrV ''y'', IntV 7)]"
      and raw_x = "ImageV [0, 255]" and raw_y = "IntV 7"
      and to_tensor = to_tensor_model]
  by (simp add: init_def example_init_def example_get_item_def default_args_def)

text \<open>
  Claim C4. An object constructed with a joint transform \<open>f\<close> returns what \<open>f\<close>
  returns, whatever that value is: the policy applied to \<open>(x, y)\<close> is \<open>f x y\<close>, and
  \<^verbatim>\<open>get_item\<close> returns \<open>f raw_x raw_y\<close> for the raw sample of the base class.
\<close>

theorem C4_joint_verbatim:
  assumes "transforms_arg args = Some f"
    and "init StreamingDataset_init args = Inr self"
    and "super_get_item (engine self) idx = (Inr obj, es')"
    and "py_getitem obj (StrV ''x'') = Inr raw_x"
    and "py_getitem obj (StrV ''y'') = Inr raw_y"
  shows "transforms_call to_tensor (transforms self) x y = f x y
       \<and> fst (get_item to_tensor super_get_item self idx) = f raw_x raw_y"
proof -
  have policy: "transforms self = Joint f"
    using assms(1,2) by (simp add: init_Inr_transforms)
  have "fst (get_item to_tensor super_get_item self idx) =
      transforms_call to_tensor (transforms self) raw_x raw_y"
    using assms(3-5) by (simp add: get_item_retrieved)
  then show ?thesis by (simp add: policy)
qed

theorem C4_joint_verbatim_witness:
  "init example_init (default_args\<lparr>transforms_arg := Some describe\<rparr>) =
     Inr \<lparr> engine = 0, transform = None, target_transform = None,
           transforms = Joint describe \<rparr>
   \<and> example_get_item 0 0 =
       (Inr (DictV [(StrV ''x'', ImageV [0, 255]), (StrV ''y'', IntV 7)]), 1)
   \<and> fst (get_item to_tensor_model example_get_item
        \<lparr> engine = 0, transform = None, target_transform = None,
          transforms = Joint describe \<rparr> 0) = Inr (StrV ''sample'')"
  using C4_joint_verbatim [where args = "default_args\<lparr>transforms_arg := Some describe\<rparr>"
      and f = describe and StreamingDataset_init = example_init
      and self = "\<lparr> engine = 0, transform = None, target_transform = None,
                     transforms = Joint describe \<rparr>"
      and super_get_item = example_get_item and idx = 0 and es' = 1
      and obj = "DictV [(StrV ''x'', ImageV [0, 255]), (StrV ''y'', IntV 7)]"
      and raw_x = "ImageV [0, 255]" and raw_y = "IntV 7"
      and to_tensor = to_tensor_model]
  by (simp add: init_def example_init_def example_get_item_def default_args_def
      describe_def)

text \<open>
  Claim C5 at an input transform whose truth value is false. The constructor takes
  \<^verbatim>\<open>empty_pipeline\<close> for a transform (it is not \<^verbatim>\<open>None\<close>) and builds
  \<^verbatim>\<open>StandardTransform(empty_pipeline, None)\<close>; \<^verbatim>\<open>empty_pipeline\<close> returns the image it
  is given; and \<^verbatim>\<open>get_item\<close> returns the tensor of \<open>to_tensor\<close> all the same, because
  \<^verbatim>\<open>StandardTransform.__call__\<close> tests the truth value of the transform.
\<close>

theorem C5_false_transform_not_applied:
  "init example_init (default_args\<lparr>transform_arg := Some empty_pipeline\<rparr>) =
     Inr \<lparr> engine = 0, transform = Some empty_pipeline, target_transform = None,
           transforms = Standard (StandardTransform (Some empty_pipeline) None) \<rparr>
   \<and> call empty_pipeline (ImageV [0, 255]) = Inr (ImageV [0, 255])
   \<and> fst (get_item to_tensor_model example_get_item
        \<lparr> engine = 0, transform = Some empty_pipeline, target_transform = None,
          transforms = Standard (StandardTransform (Some empty_pipeline) None) \<rparr> 0) =
       Inr (TupleV [TensorV [0, 1], IntV 7])"
  by (simp add: init_def example_init_def default_args_def get_item_def
      example_get_item_def StandardTransform_call_def empty_pipeline_def)

section \<open>Retrieval\<close>

text \<open>
  Claim C6. \<^verbatim>\<open>get_item(idx)\<close> calls the base class's \<^verbatim>\<open>get_item\<close> with \<open>idx\<close>, and
  when that returns an object holding the raw input under \<^verbatim>\<open>'x'\<close> and the raw target
  under \<^verbatim>\<open>'y'\<close>, the result is the policy applied to that pair and nothing else; the
  object is left as the base class left it.
\<close>

theorem C6_get_item_applies_policy:
  assumes "super_get_item (engine self) idx = (Inr obj, es')"
    and "py_getitem obj (StrV ''x'') = Inr raw_x"
    and "py_getitem obj (StrV ''y'') = Inr raw_y"
  shows "get_item to_tensor super_get_item self idx =
           (transforms_call to_tensor (transforms self) raw_x raw_y, self\<lparr>engine := es'\<rparr>)"
  using assms by (simp add: get_item_def)

theorem C6_get_item_applies_policy_witness:
  "example_get_item 4 0 =
     (Inr (DictV [(StrV ''x'', ImageV [0, 255]), (StrV ''y'', IntV 7)]), 5)
   \<and> get_item to_tensor_model example_get_item
        \<lparr> engine = 4, transform = Some invert, target_transform = Some times_ten,
          transforms = Standard (StandardTransform (Some invert) (Some times_ten)) \<rparr> 0 =
       (Inr (TupleV [ImageV [255, 0], IntV 70]),
        \<lparr> engine = 5, transform = Some invert, target_transform = Some times_ten,
          transforms = Standard (StandardTransform (Some invert) (Some times_ten)) \<rparr>)"
  using C6_get_item_applies_policy [where super_get_item = example_get_item
      and self = "\<lparr> engine = 4, transform = Some invert, target_transform = Some times_ten,
          transforms = Standard (StandardTransform (Some invert) (Some times_ten)) \<rparr>"
      and idx = 0 and es' = 5
      and obj = "DictV [(StrV ''x'', ImageV [0, 255]), (StrV ''y'', IntV 7)]"
      and raw_x = "ImageV [0, 255]" and raw_y = "IntV 7"
      and to_tensor = to_tensor_model]
  by (simp add: example_get_item_def StandardTransform_call_def invert_def times_ten_def)

text \<open>
  Claim C7. An exception leaves \<^verbatim>\<open>get_item\<close> as it was raised. If the base class's
  \<^verbatim>\<open>get_item\<close> raises \<open>e\<close>, so does \<^verbatim>\<open>get_item\<close>, after that single call; if the
  policy raises \<open>e\<close> on the raw pair, so does \<^verbatim>\<open>get_item\<close>. The policy raises what the
  callable it calls raises: the joint transform, a true input transform, a true target
  transform once the input has been transformed, and \<open>to_tensor\<close> where it stands in
  for the input transform. In each case the result is the exception and no sample.
\<close>

theorem C7_errors_propagate:
  "(super_get_item (engine self) idx = (Inl e, es') \<longrightarrow>
      get_item to_tensor super_get_item self idx = (Inl e, self\<lparr>engine := es'\<rparr>))
   \<and> (super_get_item (engine self) idx = (Inr obj, es')
        \<and> py_getitem obj (StrV ''x'') = Inr raw_x
        \<and> py_getitem obj (StrV ''y'') = Inr raw_y
        \<and> transforms_call to_tensor (transforms self) raw_x raw_y = Inl e \<longrightarrow>
      get_item to_tensor super_get_item self idx = (Inl e, self\<lparr>engine := es'\<rparr>))
   \<and> (f x y = Inl e \<longrightarrow> transforms_call to_tensor (Joint f) x y = Inl e)
   \<and> (truthy fi \<and> call fi x = Inl e \<longrightarrow>
        transforms_call to_tensor (Standard (StandardTransform (Some fi) ft')) x y = Inl e)
   \<and> (\<not> py_bool fi' \<and> to_tensor x = Inl e \<longrightarrow>
        transforms_call to_tensor (Standard (StandardTransform fi' ft')) x y = Inl e)
   \<and> ((if py_bool fi' then py_call fi' x else to_tensor x) = Inr x'
        \<and> truthy ft \<and> call ft y = Inl e \<longrightarrow>
        transforms_call to_tensor (Standard (StandardTransform fi' (Some ft))) x y = Inl e)"
proof -
  have engine_raises: "super_get_item (engine self) idx = (Inl e, es') \<longrightarrow>
      get_item to_tensor super_get_item self idx = (Inl e, self\<lparr>engine := es'\<rparr>)"
    by (simp add: get_item_def)
  have policy_raises: "super_get_item (engine self) idx = (Inr obj, es')
        \<and> py_getitem obj (StrV ''x'') = Inr raw_x
        \<and> py_getitem obj (StrV ''y'') = Inr raw_y
        \<and> transforms_call to_tensor (transforms self) raw_x raw_y = Inl e \<longrightarrow>
      get_item to_tensor super_get_item self idx = (Inl e, self\<lparr>engine := es'\<rparr>)"
    by (simp add: get_item_def)
  have joint_raises: "f x y = Inl e \<longrightarrow> transforms_call to_tensor (Joint f) x y = Inl e"
    by simp
  have input_raises: "truthy fi \<and> call fi x = Inl e \<longrightarrow>
      transforms_call to_tensor (Standard (StandardTransform (Some fi) ft')) x y = Inl e"
    by (simp add: StandardTransform_call_def)
  have to_tensor_raises: "\<not> py_bool fi' \<and> to_tensor x = Inl e \<longrightarrow>
      transforms_call to_tensor (Standard (StandardTransform fi' ft')) x y = Inl e"
    by (simp add: StandardTransform_call_def)
  have target_raises: "(if py_bool fi' then py_call fi' x else to_tensor x) = Inr x'
        \<and> truthy ft \<and> call ft y = Inl e \<longrightarrow>
      transforms_call to_tensor (Standard (StandardTransform fi' (Some ft))) x y = Inl e"
    by (simp add: StandardTransform_call_def)
  from engine_raises policy_raises joint_raises input_raises to_tensor_raises target_raises
  show ?thesis by blast
qed

theorem C7_errors_propagate_witness:
  "example_get_item 0 5 = (Inl (Raised ''IndexError''), 1)
   \<and> get_item to_tensor_model example_get_item
        \<lparr> engine = 0, transform = Some invert, target_transform = Some failing,
          transforms = Standard (StandardTransform (Some invert) (Some failing)) \<rparr> 5 =
       (Inl (Raised ''IndexError''),
        \<lparr> engine = 1, transform = Some invert, target_transform = Some failing,
          transforms = Standard (StandardTransform (Some invert) (Some failing)) \<rparr>)
   \<and> truthy failing
   \<and> call failing (IntV 7) = Inl (Raised ''RuntimeError'')
   \<and> transforms_call to_tensor_model
        (Standard (StandardTransform (Some invert) (Some failing)))
        (ImageV [0, 255]) (IntV 7) = Inl (Raised ''RuntimeError'')
   \<and> get_item to_tensor_model example_get_item
        \<lparr> engine = 0, transform = Some invert, target_transform = Some failing,
          transforms = Standard (StandardTransform (Some invert) (Some failing)) \<rparr> 0 =
       (Inl (Raised ''RuntimeError''),
        \<lparr> engine = 1, transform = Some invert, target_transform = Some failing,
          transforms = Standard (StandardTransform (Some invert) (Some failing)) \<rparr>)
   \<and> to_tensor_model (IntV 7) = Inl (TypeError ''pic should be PIL Image or ndarray'')
   \<and> transforms_call to_tensor_model (Standard (StandardTransform None None))
        (IntV 7) (IntV 7) = Inl (TypeError ''pic should be PIL Image or ndarray'')"
  using
    C7_errors_propagate [where super_get_item = example_get_item and idx = 5
      and self = "\<lparr> engine = 0, transform = Some invert, target_transform = Some failing,
          transforms = Standard (StandardTransform (Some invert) (Some failing)) \<rparr>"
      and e = "Raised ''IndexError''" and es' = 1 and to_tensor = to_tensor_model]
    C7_errors_propagate [where super_get_item = example_get_item and idx = 0
      and self = "\<lparr> engine = 0, transform = Some invert, target_transform = Some failing,
          transforms = Standard (StandardTransform (Some invert) (Some failing)) \<rparr>"
      and e = "Raised ''RuntimeError''" and es' = 1 and to_tensor = to_tensor_model
      and obj = "DictV [(StrV ''x'', ImageV [0, 255]), (StrV ''y'', IntV 7)]"
      and raw_x = "ImageV [0, 255]" and raw_y = "IntV 7"
      and fi' = "Some invert" and ft = failing and x = "ImageV [0, 255]" and y = "IntV 7"
      and x' = "ImageV [255, 0]"]
    C7_errors_propagate [where to_tensor = to_tensor_model and fi' = None and ft' = None
      and x = "IntV 7" and y = "IntV 7"
      and e = "TypeError ''pic should be PIL Image or ndarray''"]
  by (simp add: example_get_item_def StandardTransform_call_def failing_def invert_def)

text \<open>
  Claim C8. Two successive calls of \<^verbatim>\<open>get_item\<close> with the same index return the same
  result whenever the base class's \<^verbatim>\<open>get_item\<close> returns the same raw result for that
  index in the state the first call left as in the state before it (an unchanged state
  is one such case): the object keeps nothing from one call to the next.
\<close>

theorem C8_repeated_retrieval:
  assumes "get_item to_tensor super_get_item self idx = (r1, self1)"
    and "get_item to_tensor super_get_item self1 idx = (r2, self2)"
    and "fst (super_get_item (engine self1) idx) = fst (super_get_item (engine self) idx)"
  shows "r1 = r2"
proof -
  have "self1 = self\<lparr>engine := snd (super_get_item (engine self) idx)\<rparr>"
    using get_item_object [of to_tensor super_get_item self idx] assms(1) by simp
  then have policy: "transforms self1 = transforms self"
    by simp
  have same: "fst (get_item to_tensor super_get_item self1 idx) =
      fst (get_item to_tensor super_get_item self idx)"
    unfolding get_item_result policy assms(3) by (rule refl)
  have "r1 = fst (get_item to_tensor super_get_item self idx)"
    and "r2 = fst (get_item to_tensor super_get_item self1 idx)"
    using assms(1,2) by simp_all
  then show ?thesis
    using same by simp
qed

theorem C8_repeated_retrieval_witness:
  "get_item to_tensor_model example_get_item
        \<lparr> engine = 0, transform = Some invert, target_transform = None,
          transforms = Standard (StandardTransform (Some invert) None) \<rparr> 0 =
     (Inr (TupleV [ImageV [255, 0], IntV 7]),
        \<lparr> engine = 1, transform = Some invert, target_transform = None,
          transforms = Standard (StandardTransform (Some invert) None) \<rparr>)
   \<and> get_item to_tensor_model example_get_item
        \<lparr> engine = 1, transform = Some invert, target_transform = None,
          transforms = Standard (StandardTransform (Some invert) None) \<rparr> 0 =
     (Inr (TupleV [ImageV [255, 0], IntV 7]),
        \<lparr> engine = 2, transform = Some invert, target_transform = None,
          transforms = Standard (StandardTransform (Some invert) None) \<rparr>)
   \<and> fst (example_get_item 1 0) = fst (example_get_item 0 0)"
  using C8_repeated_retrieval [where to_tensor = to_tensor_model
      and super_get_item = example_get_item and idx = 0
      and self = "\<lparr> engine = 0, transform = Some invert, target_transform = None,
          transforms = Standard (StandardTransform (Some invert) None) \<rparr>"
      and ?self1.0 = "\<lparr> engine = 1, transform = Some invert, target_transform = None,
          transforms = Standard (StandardTransform (Some invert) None) \<rparr>"
      and ?self2.0 = "\<lparr> engine = 2, transform = Some invert, target_transform = None,
          transforms = Standard (StandardTransform (Some invert) None) \<rparr>"
      and ?r1.0 = "Inr (TupleV [ImageV [255, 0], IntV 7])"
      and ?r2.0 = "Inr (TupleV [ImageV [255, 0], IntV 7])"]
  by (simp add: get_item_def example_get_item_def StandardTransform_call_def invert_def)

text \<open>
  Claim C9. \<^verbatim>\<open>get_item\<close> leaves the three attributes \<^verbatim>\<open>transform\<close>,
  \<^verbatim>\<open>target_transform\<close> and \<^verbatim>\<open>transforms\<close> as they were: after one call, and after any
  sequence of calls, the object is the object before with only the state of the base
  class changed, so every call of the sequence applies the policy built by the
  constructor.
\<close>

theorem C9_attributes_unchanged:
  "snd (get_item to_tensor super_get_item self idx) =
     self\<lparr>engine := snd (super_get_item (engine self) idx)\<rparr>
   \<and> snd (get_items to_tensor super_get_item self idxs) =
       self\<lparr>engine := engine (snd (get_items to_tensor super_get_item self idxs))\<rparr>
   \<and> transform (snd (get_items to_tensor super_get_item self idxs)) = transform self
   \<and> target_transform (snd (get_items to_tensor super_get_item self idxs)) =
       target_transform self
   \<and> transforms (snd (get_items to_tensor super_get_item self idxs)) = transforms self"
proof -
  let ?after = "snd (get_items to_tensor super_get_item self idxs)"
  have after: "?after = self\<lparr>engine := engine ?after\<rparr>"
    by (rule get_items_object)
  have "transform ?after = transform (self\<lparr>engine := engine ?after\<rparr>)"
    and "target_transform ?after = target_transform (self\<lparr>engine := engine ?after\<rparr>)"
    and "transforms ?after = transforms (self\<lparr>engine := engine ?after\<rparr>)"
    using after by simp_all
  then have "transform ?after = transform self"
    and "target_transform ?after = target_transform self"
    and "transforms ?after = transforms self"
    by simp_all
  with after get_item_object [of to_tensor super_get_item self idx] show ?thesis
    by simp
qed

theorem C9_attributes_unchanged_witness:
  "get_items to_tensor_model example_get_item
        \<lparr> engine = 0, transform = Some invert, target_transform = None,
          transforms = Standard (StandardTransform (Some invert) None) \<rparr> [0, 5, 1, 0] =
     ([Inr (TupleV [ImageV [255, 0], IntV 7]), Inl (Raised ''IndexError''),
       Inl (KeyError (StrV ''y'')), Inr (TupleV [ImageV [255, 0], IntV 7])],
      \<lparr> engine = 4, transform = Some invert, target_transform = None,
        transforms = Standard (StandardTransform (Some invert) None) \<rparr>)
   \<and> transforms (snd (get_items to_tensor_model example_get_item
        \<lparr> engine = 0, transform = Some invert, target_transform = None,
          transforms = Standard (StandardTransform (Some invert) None) \<rparr> [0, 5, 1, 0])) =
       Standard (StandardTransform (Some invert) None)"
  using C9_attributes_unchanged [where to_tensor = to_tensor_model
      and super_get_item = example_get_item and idxs = "[0, 5, 1, 0]" and idx = 0
      and self = "\<lparr> engine = 0, transform = Some invert, target_transform = None,
          transforms = Standard (StandardTransform (Some invert) None) \<rparr>"]
  by (simp add: get_item_def example_get_item_def StandardTransform_call_def invert_def)

text \<open>
  Claim C10. \<^verbatim>\<open>get_item\<close> reads the input as \<^verbatim>\<open>obj['x']\<close> and then the target as
  \<^verbatim>\<open>obj['y']\<close>. An exception of either lookup is the result, whatever the policy is
  and whatever it would raise; for a dictionary with no \<^verbatim>\<open>'x'\<close> it is
  \<^verbatim>\<open>KeyError('x')\<close>, for a dictionary with \<^verbatim>\<open>'x'\<close> and no \<^verbatim>\<open>'y'\<close> it is
  \<^verbatim>\<open>KeyError('y')\<close>, and for a dictionary with both the policy is applied to exactly
  the two values found.
\<close>

theorem C10_lookup_of_x_and_y:
  assumes "super_get_item (engine self) idx = (Inr obj, es')"
  shows "(py_getitem obj (StrV ''x'') = Inl e \<longrightarrow>
            fst (get_item to_tensor super_get_item self idx) = Inl e)
       \<and> (py_getitem obj (StrV ''x'') = Inr x \<and> py_getitem obj (StrV ''y'') = Inl e \<longrightarrow>
            fst (get_item to_tensor super_get_item self idx) = Inl e)
       \<and> (obj = DictV kvs \<and> map_of kvs (StrV ''x'') = None \<longrightarrow>
            fst (get_item to_tensor super_get_item self idx) = Inl (KeyError (StrV ''x'')))
       \<and> (obj = DictV kvs \<and> map_of kvs (StrV ''x'') = Some x
            \<and> map_of kvs (StrV ''y'') = None \<longrightarrow>
            fst (get_item to_tensor super_get_item self idx) = Inl (KeyError (StrV ''y'')))
       \<and> (obj = DictV kvs \<and> map_of kvs (StrV ''x'') = Some x
            \<and> map_of kvs (StrV ''y'') = Some y \<longrightarrow>
            fst (get_item to_tensor super_get_item self idx) =
              transforms_call to_tensor (transforms self) x y)"
  using assms by (simp add: get_item_result)

theorem C10_lookup_of_x_and_y_witness:
  "example_get_item 0 2 = (Inr (DictV [(StrV ''y'', IntV 7)]), 1)
   \<and> fst (get_item to_tensor_model example_get_item
        \<lparr> engine = 0, transform = Some failing, target_transform = Some failing,
          transforms = Standard (StandardTransform (Some failing) (Some failing)) \<rparr> 2) =
       Inl (KeyError (StrV ''x''))
   \<and> example_get_item 0 1 = (Inr (DictV [(StrV ''x'', ImageV [0, 255])]), 1)
   \<and> fst (get_item to_tensor_model example_get_item
        \<lparr> engine = 0, transform = Some failing, target_transform = Some failing,
          transforms = Standard (StandardTransform (Some failing) (Some failing)) \<rparr> 1) =
       Inl (KeyError (StrV ''y''))
   \<and> fst (get_item to_tensor_model example_get_item
        \<lparr> engine = 0, transform = Some invert, target_transform = Some times_ten,
          transforms = Standard (StandardTransform (Some invert) (Some times_ten)) \<rparr> 0) =
       Inr (TupleV [ImageV [255, 0], IntV 70])"
  using
    C10_lookup_of_x_and_y [where super_get_item = example_get_item and idx = 2 and es' = 1
      and self = "\<lparr> engine = 0, transform = Some failing, target_transform = Some failing,
          transforms = Standard (StandardTransform (Some failing) (Some failing)) \<rparr>"
      and obj = "DictV [(StrV ''y'', IntV 7)]" and kvs = "[(StrV ''y'', IntV 7)]"
      and e = "KeyError (StrV ''x'')" and to_tensor = to_tensor_model]
    C10_lookup_of_x_and_y [where super_get_item = example_get_item and idx = 1 and es' = 1
      and self = "\<lparr> engine = 0, transform = Some failing, target_transform = Some failing,
          transforms = Standard (StandardTransform (Some failing) (Some failing)) \<rparr>"
      and obj = "DictV [(StrV ''x'', ImageV [0, 255])]"
      and kvs = "[(StrV ''x'', ImageV [0, 255])]" and x = "ImageV [0, 255]"
      and e = "KeyError (StrV ''y'')" and to_tensor = to_tensor_model]
    C10_lookup_of_x_and_y [where super_get_item = example_get_item and idx = 0 and es' = 1
      and self = "\<lparr> engine = 0, transform = Some invert, target_transform = Some times_ten,
          transforms = Standard (StandardTransform (Some invert) (Some times_ten)) \<rparr>"
      and obj = "DictV [(StrV ''x'', ImageV [0, 255]), (StrV ''y'', IntV 7)]"
      and kvs = "[(StrV ''x'', ImageV [0, 255]), (StrV ''y'', IntV 7)]"
      and x = "ImageV [0, 255]" and y = "IntV 7" and to_tensor = to_tensor_model]
  by (simp add: example_get_item_def StandardTransform_call_def invert_def times_ten_def)

end
